theory Spec2Isabelle
  imports Main "HOL-Library.List_Lexorder" "HOL-Library.Char_ord"
begin

section \<open>Server side: the sync processor (cdk/lambda/sync/sync.js)\<close>

subsection \<open>Data model\<close>

text \<open>
  JavaScript numbers are modelled as \<open>int\<close>: the engine only ever stores integral
  values (focus time, visit counts, epoch milliseconds, versions), all far below
  \<open>2^53\<close>. Objects are records; the record hierarchy follows the shapes the code builds:
  \<^item> \<open>row\<close>: the object \<open>{host, date, focus, time}\<close> returned by a download;
  \<^item> \<open>enhanced\<close>: a row with \<open>sessionId\<close> and \<open>lastModified\<close> (the fields
    \<open>processRow\<close> destructures from an uploaded row, and the shape of a cold-archive entry);
  \<^item> \<open>incoming\<close>: the object literal \<open>processRow\<close> passes to \<open>resolveConflict\<close>;
  \<^item> \<open>stored\<close>: an item of the hot table.
\<close>

record row =
  host :: string
  date :: string
  focus :: int
  time :: int

record enhanced = row +
  sessionId :: string
  lastModified :: int

record incoming = enhanced +
  clientId :: string
  batchId :: string

record stored = incoming +
  PK :: string
  SK :: string
  version :: int
  ttl :: int
  conflictResolution :: "string option"

datatype conflict_type = session_conflict | timestamp_conflict

record overwritten_values =
  o_focus :: int
  o_time :: int
  o_lastModified :: int

record conflict =
  ctype :: conflict_type
  c_clientId :: string
  c_sessionId :: string
  rejected :: "bool option"
  reason :: "string option"
  overwritten :: "overwritten_values option"

record conflict_result =
  resolved :: stored
  conflicts :: "conflict list"

subsection \<open>Shared helpers (cdk/lambda-layers/shared/nodejs/utils.js)\<close>

text \<open>\<open>generateTTL(days)\<close>: \<open>Math.floor(Date.now() / 1000) + days * 24 * 60 * 60\<close>; the
  clock reading \<open>now\<close> (epoch milliseconds) is a parameter.\<close>

definition generateTTL :: "int \<Rightarrow> int \<Rightarrow> int" where
  "generateTTL now days = now div 1000 + days * 24 * 60 * 60"

definition generatePK :: "string \<Rightarrow> string \<Rightarrow> string \<Rightarrow> string" where
  "generatePK cid h d = cid @ ''#'' @ h @ ''#'' @ d"

subsection \<open>The row merge function\<close>

text \<open>\<open>resolveConflict(existing, incoming)\<close>, lines 225-288. The spread \<open>...existing\<close> is the
  record update of \<open>existing\<close>; \<open>now\<close> is the clock read by \<open>generateTTL\<close>.\<close>

definition resolveConflict :: "int \<Rightarrow> stored \<Rightarrow> incoming \<Rightarrow> conflict_result" where
  "resolveConflict now existing inc =
    (if sessionId existing = sessionId inc then
       \<lparr> resolved = existing
           \<lparr> focus := focus existing + focus inc,
             time := time existing + time inc,
             lastModified := max (lastModified existing) (lastModified inc),
             version := version existing + 1,
             ttl := generateTTL now 7 \<rparr>,
         conflicts = [] \<rparr>
     else if lastModified inc > lastModified existing then
       \<lparr> resolved = existing
           \<lparr> clientId := clientId inc,
             sessionId := sessionId inc,
             focus := max (focus existing) (focus inc),
             time := max (time existing) (time inc),
             lastModified := lastModified inc,
             version := version existing + 1,
             ttl := generateTTL now 7,
             conflictResolution := Some ''max_values'' \<rparr>,
         conflicts =
           [\<lparr> ctype = session_conflict,
              c_clientId = clientId existing,
              c_sessionId = sessionId existing,
              rejected = None,
              reason = None,
              overwritten = Some \<lparr> o_focus = focus existing, o_time = time existing,
                                    o_lastModified = lastModified existing \<rparr> \<rparr>] \<rparr>
     else
       \<lparr> resolved = existing,
         conflicts =
           [\<lparr> ctype = timestamp_conflict,
              c_clientId = clientId inc,
              c_sessionId = sessionId inc,
              rejected = Some True,
              reason = Some ''older_timestamp'',
              overwritten = None \<rparr>] \<rparr>)"


subsection \<open>The versioned store\<close>

text \<open>
  The hot table is the list of its items; an item's key is its own \<open>(PK, SK)\<close> pair, so a
  read by key returns an item carrying that key, as DynamoDB does. \<open>putItem\<close> is the
  \<open>PutCommand\<close> of lines 192-199 with its condition
  \<open>attribute_not_exists(PK) OR version < :newVersion\<close>, where \<open>:newVersion\<close> is the version
  of the item being written; a failed condition is the
  \<open>ConditionalCheckFailedException\<close> and leaves the table as it was.
\<close>

type_synonym table = "stored list"

datatype put_error = ConditionalCheckFailedException

definition getItem :: "table \<Rightarrow> string \<Rightarrow> string \<Rightarrow> stored option" where
  "getItem tbl pk sk = find (\<lambda>it. PK it = pk \<and> SK it = sk) tbl"

definition putItem :: "stored \<Rightarrow> table \<Rightarrow> put_error + table" where
  "putItem item tbl =
    (case getItem tbl (PK item) (SK item) of
       None \<Rightarrow> Inr (item # tbl)
     | Some cur \<Rightarrow>
         if version cur < version item
         then Inr (item # filter (\<lambda>it. \<not> (PK it = PK item \<and> SK it = SK item)) tbl)
         else Inl ConditionalCheckFailedException)"

subsection \<open>Processing one uploaded row\<close>

text \<open>The result object \<open>{success: true, pk, version, conflicts}\<close> of lines 206-211.\<close>

datatype row_result =
  RowResult (success: bool) (res_pk: string) (res_version: int) (res_conflicts: "conflict list")

text \<open>\<open>x || d\<close> on a number: \<open>0\<close> (like a missing field) is falsy.\<close>

definition js_or :: "int \<Rightarrow> int \<Rightarrow> int" where
  "js_or x d = (if x = 0 then d else x)"

text \<open>The object that \<open>processRow\<close> hands to \<open>resolveConflict\<close> (lines 160-169), built
  from the uploaded row \<open>r\<close>; \<open>now\<close> is \<open>Date.now()\<close>.\<close>

definition incomingOf :: "int \<Rightarrow> string \<Rightarrow> 'a enhanced_scheme \<Rightarrow> string \<Rightarrow> incoming" where
  "incomingOf now cid r bid =
    \<lparr> host = host r, date = date r,
      focus = js_or (focus r) 0, time = js_or (time r) 0,
      sessionId = sessionId r, lastModified = js_or (lastModified r) now,
      clientId = cid, batchId = bid \<rparr>"

text \<open>
  \<open>finalData\<close> of lines 155-189: the record \<open>processRow\<close> offers to the conditional write,
  with the conflicts of the merge. The code reads the clock twice: \<open>now\<close> is \<open>Date.now()\<close>
  at line 146, before the table is read; \<open>ttlNow\<close> is the later reading inside
  \<open>generateTTL\<close>.
\<close>

definition finalData :: "int \<Rightarrow> int \<Rightarrow> table \<Rightarrow> string \<Rightarrow> 'a enhanced_scheme \<Rightarrow> string
    \<Rightarrow> stored \<times> conflict list" where
  "finalData now ttlNow tbl cid r bid =
    (let pk = generatePK cid (host r) (date r) in
     case getItem tbl pk ''data'' of
       Some existing \<Rightarrow>
         (let conflictResult = resolveConflict ttlNow existing (incomingOf now cid r bid)
          in (resolved conflictResult, conflicts conflictResult))
     | None \<Rightarrow>
         (\<lparr> host = host r, date = date r,
            focus = js_or (focus r) 0, time = js_or (time r) 0,
            sessionId = sessionId r, lastModified = js_or (lastModified r) now,
            clientId = cid, batchId = bid,
            PK = pk, SK = ''data'', version = 1, ttl = generateTTL ttlNow 7,
            conflictResolution = None \<rparr>, []))"

text \<open>
  One pass through the body of \<open>processRow\<close> (lines 148-211): read, merge, conditional
  write. The cold-archive copy of lines 201-204 goes to a different store, swallows its own
  errors and is not read back by \<open>processRow\<close>; it is left out of the state.
\<close>

definition attempt :: "int \<Rightarrow> int \<Rightarrow> table \<Rightarrow> string \<Rightarrow> 'a enhanced_scheme \<Rightarrow> string
    \<Rightarrow> put_error + (row_result \<times> table)" where
  "attempt now ttlNow tbl cid r bid =
    (let (fd, cs) = finalData now ttlNow tbl cid r bid in
     case putItem fd tbl of
       Inl e \<Rightarrow> Inl e
     | Inr tbl' \<Rightarrow>
         Inr (RowResult True (generatePK cid (host r) (date r)) (version fd) cs, tbl'))"

text \<open>
  \<open>processRow\<close> (lines 143-220): on \<open>ConditionalCheckFailedException\<close> the function calls
  itself again with the same arguments (line 216), with no attempt counter. The recursion
  need not end, so the function is partial: \<open>None\<close> is "never returns". In the \<open>k\<close>-th call,
  \<open>clock k\<close> is the reading of \<open>Date.now()\<close> at line 146 and \<open>ttlClock k\<close> the reading
  inside \<open>generateTTL\<close>. No other writer touches the table between the calls.
\<close>

partial_function (option) processRow ::
    "(nat \<Rightarrow> int) \<Rightarrow> (nat \<Rightarrow> int) \<Rightarrow> nat \<Rightarrow> table \<Rightarrow> string \<Rightarrow> 'a enhanced_scheme \<Rightarrow> string
      \<Rightarrow> (row_result \<times> table) option" where
  "processRow clock ttlClock k tbl cid r bid =
    (case attempt (clock k) (ttlClock k) tbl cid r bid of
       Inr res \<Rightarrow> Some res
     | Inl ConditionalCheckFailedException \<Rightarrow> processRow clock ttlClock (Suc k) tbl cid r bid)"

subsection \<open>Download\<close>

text \<open>
  The built-ins of the JavaScript \<open>Date\<close> that the download path calls are parameters:
  \<open>toISOString\<close> of a time value (epoch milliseconds), and the time value of
  \<open>new Date(s)\<close> for a string \<open>s\<close>, which is \<open>None\<close> for an invalid date (every
  comparison with an invalid date is false).
\<close>

record jsDate =
  toISOString :: "int \<Rightarrow> string"
  parseDate :: "string \<Rightarrow> int option"

text \<open>\<open>formatDate\<close> of utils.js: \<open>d.toISOString().slice(0, 10).replace(/-/g, '')\<close>.\<close>

definition formatDate :: "jsDate \<Rightarrow> int \<Rightarrow> string" where
  "formatDate D d = filter (\<lambda>c. c \<noteq> CHR ''-'') (take 10 (toISOString D d))"

definition generateMonthlyS3Key :: "string \<Rightarrow> string \<Rightarrow> string" where
  "generateMonthlyS3Key cid yearMonth = ''clients/'' @ cid @ ''/monthly/'' @ yearMonth @ ''.json.gz''"

text \<open>
  The query of lines 455-465 on the index \<open>ClientIndex\<close> (partition key \<open>clientId\<close>, sort key
  \<open>lastModified\<close>), all pages together: the items of the client whose \<open>lastModified\<close>
  lies between the bounds, in the order of the sort key.
\<close>

definition queryClientIndex :: "table \<Rightarrow> string \<Rightarrow> int \<Rightarrow> int \<Rightarrow> stored list" where
  "queryClientIndex tbl cid lo hi =
    sort_key lastModified
      (filter (\<lambda>it. clientId it = cid \<and> lo \<le> lastModified it \<and> lastModified it \<le> hi) tbl)"

text \<open>\<open>downloadHotData\<close>, lines 447-482. The strings are compared as JavaScript compares
  them, by code unit. The objects returned have the four fields of \<open>row\<close> and no other.\<close>

definition downloadHotData :: "jsDate \<Rightarrow> table \<Rightarrow> string \<Rightarrow> int \<Rightarrow> int \<Rightarrow> row list" where
  "downloadHotData D tbl cid startDate endDate =
    (let startDateStr = formatDate D startDate;
         endDateStr = formatDate D endDate;
         result = filter (\<lambda>item. SK item = ''data'' \<and> startDateStr \<le> date item \<and> date item \<le> endDateStr)
                    (queryClientIndex tbl cid startDate endDate)
     in map (\<lambda>item. \<lparr> host = host item, date = date item,
                        focus = focus item, time = time item \<rparr>) result)"

text \<open>
  The cold archive: an object store from keys to monthly blobs; a blob is the list of its
  entries in the order of \<open>Object.values\<close>. An entry has the fields written at lines 318-325.
  \<open>downloadColdData\<close>, lines 487-532; \<open>months\<close> is the list of year-months that the loop of
  lines 491-498 produces from the two dates. A month whose blob cannot be read is skipped.
\<close>

type_synonym bucket = "string \<Rightarrow> enhanced list option"

definition inRange :: "jsDate \<Rightarrow> int \<Rightarrow> int \<Rightarrow> string \<Rightarrow> bool" where
  "inRange D startDate endDate d =
    (case parseDate D (take 4 d @ ''-'' @ take 2 (drop 4 d) @ ''-'' @ take 2 (drop 6 d)) of
       None \<Rightarrow> False
     | Some recordDate \<Rightarrow> startDate \<le> recordDate \<and> recordDate \<le> endDate)"

definition downloadColdData ::
    "jsDate \<Rightarrow> bucket \<Rightarrow> string list \<Rightarrow> string \<Rightarrow> int \<Rightarrow> int \<Rightarrow> row list" where
  "downloadColdData D s3 months cid startDate endDate =
    concat (map (\<lambda>yearMonth.
      case s3 (generateMonthlyS3Key cid yearMonth) of
        None \<Rightarrow> []
      | Some monthlyData \<Rightarrow>
          map (\<lambda>record. \<lparr> host = host record, date = date record,
                             focus = focus record, time = time record \<rparr>)
            (filter (\<lambda>record. inRange D startDate endDate (date record)) monthlyData)) months)"

text \<open>\<open>a > b\<close> where either side may be \<open>undefined\<close> (\<open>None\<close>): false unless both are
  numbers.\<close>

definition js_gt :: "int option \<Rightarrow> int option \<Rightarrow> bool" where
  "js_gt a b = (case a of None \<Rightarrow> False | Some x \<Rightarrow> (case b of None \<Rightarrow> False | Some y \<Rightarrow> y < x))"

text \<open>A JavaScript \<open>Map\<close> keeps its keys in insertion order; \<open>set\<close> on a key already
  present replaces the value in place.\<close>

fun map_set :: "'k \<Rightarrow> 'v \<Rightarrow> ('k \<times> 'v) list \<Rightarrow> ('k \<times> 'v) list" where
  "map_set k v [] = [(k, v)]"
| "map_set k v ((k', v') # m) = (if k' = k then (k, v) # m else (k', v') # map_set k v m)"

text \<open>
  \<open>deduplicateRows\<close>, lines 571-584. \<open>lastModifiedOf\<close> is the property read
  \<open>row.lastModified\<close>, which is \<open>undefined\<close> on an object that has no such property.
\<close>

definition dedupStep :: "('r \<Rightarrow> string) \<Rightarrow> ('r \<Rightarrow> int option) \<Rightarrow> (string \<times> 'r) list \<Rightarrow> 'r
    \<Rightarrow> (string \<times> 'r) list" where
  "dedupStep keyOf lastModifiedOf m r =
    (let key = keyOf r in
     case map_of m key of
       None \<Rightarrow> map_set key r m
     | Some existing \<Rightarrow>
         if js_gt (lastModifiedOf r) (lastModifiedOf existing) then map_set key r m else m)"

definition deduplicateRows :: "('a row_scheme \<Rightarrow> int option) \<Rightarrow> 'a row_scheme list
    \<Rightarrow> 'a row_scheme list" where
  "deduplicateRows lastModifiedOf rs =
    map snd (foldl (dedupStep (\<lambda>r. host r @ ''#'' @ date r) lastModifiedOf) [] rs)"

text \<open>
  \<open>downloadData\<close>, lines 424-442, from the two \<open>Date\<close> objects on (\<open>startDate\<close> and
  \<open>endDate\<close> are their time values, \<open>now\<close> is \<open>Date.now()\<close>). The rows handed to
  \<open>deduplicateRows\<close> are the objects built at lines 476-481 and 516-521, which have no
  \<open>lastModified\<close> property. \<open>Array.prototype.sort\<close> is stable; the comparator
  \<open>a.date.localeCompare(b.date)\<close> orders the digit strings of dates as the code-unit order
  does.
\<close>

definition downloadData ::
    "jsDate \<Rightarrow> int \<Rightarrow> table \<Rightarrow> bucket \<Rightarrow> string list \<Rightarrow> string \<Rightarrow> int \<Rightarrow> int \<Rightarrow> row list" where
  "downloadData D now tbl s3 months cid startDate endDate =
    (let hotData = downloadHotData D tbl cid startDate endDate;
         coldData = (if startDate < now - 7 * 24 * 60 * 60 * 1000
                     then downloadColdData D s3 months cid startDate endDate else []);
         uniqueData = deduplicateRows (\<lambda>r. None) (hotData @ coldData)
     in sort_key date uniqueData)"


section \<open>Client side: the outbound queue (BackgroundSyncService)\<close>

text \<open>
  The service is single-threaded; its fields are a record, every method takes the state
  and returns the new one. The rows of a batch are opaque to the queue. \<open>timers\<close> counts the
  \<open>setTimeout\<close> callbacks that \<open>queueForSync\<close> has scheduled for \<open>processQueue\<close>.
\<close>

text \<open>A pending batch; \<open>p_batchId\<close> is its \<open>batchId\<close>.\<close>

record 'r pendingSync =
  rows :: "'r list"
  timestamp :: int
  retryCount :: nat
  p_batchId :: string

record syncStats =
  totalSynced :: nat
  totalFailed :: nat
  lastSyncTime :: int
  pendingCount :: nat
  isOnline :: bool

record 'r backgroundSyncService =
  isEnabled :: bool
  syncQueue :: "'r pendingSync list"
  isProcessing :: bool
  stats :: syncStats
  timers :: nat

definition maxRetries :: nat where
  "maxRetries = 3"

definition batchSize :: nat where
  "batchSize = 50"

definition maxQueueSize :: nat where
  "maxQueueSize = 1000"

text \<open>The loop of lines 183-186: \<open>shift\<close> while the queue is longer than the cap.\<close>

function dropOldest :: "'a list \<Rightarrow> 'a list" where
  "dropOldest q = (if length q > maxQueueSize then dropOldest (tl q) else q)"
  by pat_completeness auto
termination
  by (relation "measure length") auto

declare dropOldest.simps [simp del]

text \<open>
  \<open>queueForSync\<close>, lines 167-194. \<open>now\<close> is \<open>Date.now()\<close>; \<open>bid\<close> is the batch id string
  built at line 176 from the clock and \<open>Math.random()\<close>.
\<close>

definition queueForSync :: "int \<Rightarrow> string \<Rightarrow> 'r list \<Rightarrow> 'r backgroundSyncService
    \<Rightarrow> 'r backgroundSyncService" where
  "queueForSync now bid rws s =
    (if \<not> isEnabled s \<or> rws = [] then s
     else
       let pending = \<lparr> rows = rws, timestamp = now, retryCount = 0, p_batchId = bid \<rparr>;
           q1 = syncQueue s @ [pending];
           s1 = s \<lparr> syncQueue := q1, stats := (stats s) \<lparr> pendingCount := length q1 \<rparr> \<rparr>;
           s2 = s1 \<lparr> syncQueue := dropOldest (syncQueue s1) \<rparr>
       in if isOnline (stats s2) \<and> \<not> isProcessing s2
          then s2 \<lparr> timers := timers s2 + 1 \<rparr> else s2)"

text \<open>\<open>Math.ceil(this.batchSize / 10)\<close>, line 209.\<close>

definition maxBatches :: nat where
  "maxBatches = (batchSize + 9) div 10"

text \<open>
  \<open>syncBatch\<close>, lines 252-282, with what it awaits as the record \<open>delivery\<close>: the answer of
  \<open>processor.checkAuth()\<close> (its error message, its coordinator, the backup type of its
  option), the client id of \<open>metaService.getCid()\<close>, whether the coordinator's
  \<open>getConfig\<close> finds the API key and endpoint, and what \<open>uploadData\<close> does: it rejects, or
  it answers with the number of rows that failed. A missing or empty string is falsy.
\<close>

datatype js_error = Error string

datatype uploadOutcome = UploadRejected | UploadResponse nat

datatype coordinatorKind = AwsCoordinator | OtherCoordinator

record delivery =
  authErrorMsg :: "string option"
  coordinator :: "coordinatorKind option"
  backupType :: string
  metaCid :: "string option"
  configOk :: bool
  uploadResult :: uploadOutcome

text \<open>
  \<open>AwsCoordinator.upload\<close> and \<open>AwsCoordinator.syncIncremental\<close> (coordinator.ts). Both wrap
  the upload in \<open>try\<close>; \<open>upload\<close> throws when rows failed and its \<open>catch\<close> throws again,
  the \<open>catch\<close> of \<open>syncIncremental\<close> logs the error and returns. The queue never
  looks at the message of an error; the messages below stand for whatever the failing
  call reports.
\<close>

definition uploadBody :: "delivery \<Rightarrow> bool \<Rightarrow> js_error + unit" where
  "uploadBody d throwOnFailedRows =
    (if \<not> configOk d then Inl (Error ''AWS API key is required'')
     else case uploadResult d of
       UploadRejected \<Rightarrow> Inl (Error ''request failed'')
     | UploadResponse failed \<Rightarrow>
         if throwOnFailedRows \<and> failed > 0 then Inl (Error ''rows failed to upload'')
         else Inr ())"

definition coordinatorUpload :: "delivery \<Rightarrow> 'r list \<Rightarrow> js_error + unit" where
  "coordinatorUpload d rws =
    (if rws = [] then Inr ()
     else case uploadBody d True of
       Inl (Error errorMsg) \<Rightarrow> Inl (Error (''AWS upload failed: '' @ errorMsg))
     | Inr u \<Rightarrow> Inr u)"

definition syncIncremental :: "delivery \<Rightarrow> 'r list \<Rightarrow> js_error + unit" where
  "syncIncremental d rws =
    (if rws = [] then Inr ()
     else case uploadBody d False of
       Inl error \<Rightarrow> Inr ()
     | Inr u \<Rightarrow> Inr u)"

definition syncBatch :: "delivery \<Rightarrow> 'r pendingSync \<Rightarrow> js_error + unit" where
  "syncBatch d batch =
    (if (authErrorMsg d \<noteq> None \<and> authErrorMsg d \<noteq> Some []) \<or> coordinator d = None
        \<or> backupType d \<noteq> ''aws'' then
       Inl (Error (case authErrorMsg d of
                     None \<Rightarrow> ''AWS sync not configured''
                   | Some m \<Rightarrow> if m = [] then ''AWS sync not configured'' else m))
     else if metaCid d = None \<or> metaCid d = Some [] then Inl (Error ''No client ID available'')
     else if coordinator d = Some AwsCoordinator then syncIncremental d (rows batch)
     else coordinatorUpload d (rows batch))"

text \<open>
  The calls of \<open>queueForSync\<close> that arrive while \<open>processQueue\<close> awaits \<open>syncBatch\<close>: each
  is the clock reading, the batch id and the rows of one call.
\<close>

type_synonym 'r enqueue = "int \<times> string \<times> 'r list"

definition enqueueAll :: "'r enqueue list \<Rightarrow> 'r backgroundSyncService \<Rightarrow> 'r backgroundSyncService" where
  "enqueueAll calls s = foldl (\<lambda>s (now, bid, rws). queueForSync now bid rws s) s calls"

text \<open>
  The loop of \<open>processQueue\<close>, lines 211-241. In the \<open>i\<close>-th iteration of the cycle
  \<open>env i\<close> is what \<open>syncBatch\<close> meets, \<open>arrivals i\<close> are the enqueues that run during the
  \<open>await\<close>, and \<open>clock i\<close> is \<open>Date.now()\<close> after it. \<open>batch\<close> is read before the
  \<open>await\<close>; every \<open>shift\<close> after it removes the head the queue has by then. A success
  or a drop goes on with the next head; a requeue is the \<open>break\<close>.
\<close>

function processLoop :: "(nat \<Rightarrow> delivery) \<Rightarrow> (nat \<Rightarrow> 'r enqueue list) \<Rightarrow> (nat \<Rightarrow> int) \<Rightarrow> nat \<Rightarrow> nat
    \<Rightarrow> 'r backgroundSyncService \<Rightarrow> 'r backgroundSyncService" where
  "processLoop env arrivals clock i processedCount s =
    (if syncQueue s \<noteq> [] \<and> processedCount < maxBatches then
       let batch = hd (syncQueue s);
           s' = enqueueAll (arrivals i) s
       in
       if syncBatch (env i) batch = Inr () then
         processLoop env arrivals clock (Suc i) (Suc processedCount)
           (s' \<lparr> syncQueue := tl (syncQueue s'),
                 stats := (stats s') \<lparr> totalSynced := totalSynced (stats s') + length (rows batch),
                                       lastSyncTime := clock i \<rparr> \<rparr>)
       else
         let batch' = batch \<lparr> retryCount := retryCount batch + 1 \<rparr> in
         if retryCount batch' \<ge> maxRetries then
           processLoop env arrivals clock (Suc i) processedCount
             (s' \<lparr> syncQueue := tl (syncQueue s'),
                   stats := (stats s') \<lparr> totalFailed := totalFailed (stats s') + length (rows batch) \<rparr> \<rparr>)
         else
           s' \<lparr> syncQueue := tl (syncQueue s') @ [batch'] \<rparr>
     else s)"
  by pat_completeness auto
termination
proof -
  let ?P = "\<lambda>b :: 'r pendingSync. maxRetries \<le> retryCount b + 1"
  let ?cnt = "\<lambda>q :: 'r pendingSync list. length (filter ?P q)"
  have dropped: "\<exists>n. dropOldest q = drop n q" for q :: "'r pendingSync list"
  proof (induction q rule: dropOldest.induct)
    case (1 q)
    show ?case
    proof (cases "length q > maxQueueSize")
      case True
      then obtain n where "dropOldest (tl q) = drop n (tl q)"
        using 1 by blast
      then have "dropOldest q = drop (Suc n) q"
        using True by (subst dropOldest.simps) (simp add: drop_Suc)
      then show ?thesis by blast
    next
      case False
      then have "dropOldest q = drop 0 q"
        by (subst dropOldest.simps) simp
      then show ?thesis by blast
    qed
  qed
  have cnt_drop: "?cnt (drop n q) \<le> ?cnt q" for n and q :: "'r pendingSync list"
  proof -
    have "?cnt q = ?cnt (take n q) + ?cnt (drop n q)"
      by (metis append_take_drop_id filter_append length_append)
    then show ?thesis by simp
  qed
  have one: "?cnt (tl (syncQueue (queueForSync now bid rws s))) \<le> ?cnt (tl (syncQueue s))"
    for now bid rws and s :: "'r backgroundSyncService"
  proof (cases "isEnabled s \<and> rws \<noteq> []")
    case False
    then have "queueForSync now bid rws s = s"
      by (auto simp: queueForSync_def)
    then show ?thesis by simp
  next
    case True
    let ?new = "\<lparr> rows = rws, timestamp = now, retryCount = 0, p_batchId = bid \<rparr>"
    obtain n where n: "dropOldest (syncQueue s @ [?new]) = drop n (syncQueue s @ [?new])"
      using dropped by blast
    have q: "syncQueue (queueForSync now bid rws s) = drop n (syncQueue s @ [?new])"
      using True n by (simp add: queueForSync_def Let_def)
    have "?cnt (tl (drop n (syncQueue s @ [?new]))) = ?cnt (drop n (tl (syncQueue s @ [?new])))"
      by (simp only: tl_drop)
    also have "\<dots> \<le> ?cnt (tl (syncQueue s @ [?new]))"
      by (rule cnt_drop)
    also have "\<dots> \<le> ?cnt (tl (syncQueue s))"
      by (cases "syncQueue s") (simp_all add: maxRetries_def)
    finally show ?thesis
      by (simp add: q)
  qed
  have many: "?cnt (tl (syncQueue (enqueueAll calls s))) \<le> ?cnt (tl (syncQueue s))"
    for calls and s :: "'r backgroundSyncService"
  proof (induction calls arbitrary: s)
    case Nil
    show ?case by (simp add: enqueueAll_def)
  next
    case (Cons c calls)
    obtain now bid rws where c: "c = (now, bid, rws)"
      by (cases c) auto
    have "?cnt (tl (syncQueue (enqueueAll (c # calls) s)))
        = ?cnt (tl (syncQueue (enqueueAll calls (queueForSync now bid rws s))))"
      by (simp add: enqueueAll_def c)
    also have "\<dots> \<le> ?cnt (tl (syncQueue (queueForSync now bid rws s)))"
      by (rule Cons.IH)
    also have "\<dots> \<le> ?cnt (tl (syncQueue s))"
      by (rule one)
    finally show ?case .
  qed
  have tl_le: "?cnt (tl q) \<le> ?cnt q" for q :: "'r pendingSync list"
    by (cases q) simp_all
  have hd_counted: "?cnt (tl q) < ?cnt q"
    if "q \<noteq> []" and "maxRetries \<le> retryCount (hd q) + 1" for q :: "'r pendingSync list"
    using that by (cases q) simp_all
  show ?thesis
    apply (relation "measure (\<lambda>(env, arrivals, clock, i, processedCount, s).
      (maxBatches - processedCount)
        + length (filter (\<lambda>b. maxRetries \<le> retryCount b + 1) (syncQueue s)))")
    subgoal
      by simp
    subgoal for env arrivals clock i processedCount s
      using many [of "arrivals i" s] tl_le [of "syncQueue s"]
      by (simp, linarith)
    subgoal for env arrivals clock i processedCount s
      using many [of "arrivals i" s] hd_counted [of "syncQueue s"]
      by (simp, linarith)
    done
qed

declare processLoop.simps [simp del]

text \<open>\<open>processQueue\<close>, lines 199-247.\<close>

definition processQueue :: "(nat \<Rightarrow> delivery) \<Rightarrow> (nat \<Rightarrow> 'r enqueue list) \<Rightarrow> (nat \<Rightarrow> int)
    \<Rightarrow> 'r backgroundSyncService \<Rightarrow> 'r backgroundSyncService" where
  "processQueue env arrivals clock s =
    (if isProcessing s \<or> syncQueue s = [] \<or> \<not> isOnline (stats s) then s
     else
       let s1 = s \<lparr> isProcessing := True \<rparr>;
           s2 = processLoop env arrivals clock 0 0 s1;
           s3 = s2 \<lparr> stats := (stats s2) \<lparr> pendingCount := length (syncQueue s2) \<rparr> \<rparr>
       in s3 \<lparr> isProcessing := False \<rparr>)"

section \<open>Client side: the transport manager (HybridSyncManager)\<close>

datatype connectionState = Disconnected | Connecting | Connected | ErrorState

datatype readyState = CONNECTING | OPEN | CLOSING | CLOSED

text \<open>A \<open>sync-status\<close> event handed to \<open>emit\<close>, with its fields \<open>connected\<close> and
  \<open>method\<close>; the listeners are outside the manager, so the state keeps the events emitted
  so far.\<close>

record syncStatus =
  ev_connected :: bool
  ev_method :: string

text \<open>
  The fields of the manager. \<open>pollInterval\<close> tells whether the polling timer runs;
  \<open>reconnectTimeout\<close> is the pending reconnect timer with its delay in milliseconds.
\<close>

record hybridSyncManager =
  websocket :: "readyState option"
  pollInterval :: bool
  reconnectTimeout :: "int option"
  backoffMultiplier :: int
  connectionState :: connectionState
  m_isEnabled :: bool
  m_clientId :: "string option"
  emitted :: "syncStatus list"

definition maxBackoffMs :: int where
  "maxBackoffMs = 60000"

definition baseBackoffMs :: int where
  "baseBackoffMs = 1000"

definition emit :: "syncStatus \<Rightarrow> hybridSyncManager \<Rightarrow> hybridSyncManager" where
  "emit ev s = s \<lparr> emitted := emitted s @ [ev] \<rparr>"

definition startPolling :: "hybridSyncManager \<Rightarrow> hybridSyncManager" where
  "startPolling s = (if pollInterval s then s else s \<lparr> pollInterval := True \<rparr>)"

definition stopPolling :: "hybridSyncManager \<Rightarrow> hybridSyncManager" where
  "stopPolling s = (if pollInterval s then s \<lparr> pollInterval := False \<rparr> else s)"

definition clearReconnectTimeout :: "hybridSyncManager \<Rightarrow> hybridSyncManager" where
  "clearReconnectTimeout s =
    (if reconnectTimeout s \<noteq> None then s \<lparr> reconnectTimeout := None \<rparr> else s)"

text \<open>\<open>scheduleReconnect\<close>, lines 438-460: the timer is set with the delay computed from
  the multiplier before it is doubled.\<close>

definition scheduleReconnect :: "hybridSyncManager \<Rightarrow> hybridSyncManager" where
  "scheduleReconnect s =
    (if \<not> m_isEnabled s then s
     else
       let s1 = clearReconnectTimeout s;
           delay = min (baseBackoffMs * backoffMultiplier s1) maxBackoffMs;
           s2 = s1 \<lparr> backoffMultiplier := min (backoffMultiplier s1 * 2) 60 \<rparr>
       in s2 \<lparr> reconnectTimeout := Some delay \<rparr>)"

text \<open>The handlers that \<open>connectWebSocket\<close> installs on the socket (lines 343-375). The
  browser delivers \<open>open\<close> when the socket's \<open>readyState\<close> has become \<open>OPEN\<close>.\<close>

definition onopen :: "hybridSyncManager \<Rightarrow> hybridSyncManager" where
  "onopen s =
    emit \<lparr> ev_connected = True, ev_method = ''websocket'' \<rparr>
      (stopPolling (s \<lparr> websocket := map_option (\<lambda>_. OPEN) (websocket s),
                          connectionState := Connected, backoffMultiplier := 1 \<rparr>))"

definition onclose :: "hybridSyncManager \<Rightarrow> hybridSyncManager" where
  "onclose s =
    emit \<lparr> ev_connected = False, ev_method = ''polling'' \<rparr>
      (scheduleReconnect (startPolling (s \<lparr> connectionState := Disconnected, websocket := None \<rparr>)))"

definition onerror :: "hybridSyncManager \<Rightarrow> hybridSyncManager" where
  "onerror s =
    emit \<lparr> ev_connected = False, ev_method = ''error'' \<rparr> (s \<lparr> connectionState := ErrorState \<rparr>)"

text \<open>
  \<open>connectWebSocket\<close> (lines 317-384) up to the creation of the socket. It throws, which is
  \<open>None\<close>, when there is no client id or no endpoint in the options (\<open>endpoint\<close> tells
  whether one is configured). It does not look at \<open>isEnabled\<close>.
\<close>

definition connectWebSocket :: "bool \<Rightarrow> hybridSyncManager \<Rightarrow> hybridSyncManager option" where
  "connectWebSocket endpoint s =
    (if m_clientId s = None then None
     else if \<not> endpoint then None
     else Some ((emit \<lparr> ev_connected = False, ev_method = ''websocket'' \<rparr>
                  (s \<lparr> connectionState := Connecting \<rparr>)) \<lparr> websocket := Some CONNECTING \<rparr>))"

text \<open>
  A tick of the polling timer (lines 406-421), as far as the manager's own state goes:
  when there is no socket, or a closed one, and \<open>Math.random() < 0.1\<close> (\<open>lucky\<close>), it calls
  \<open>connectWebSocket\<close> and ignores a failure.
\<close>

definition pollTick :: "bool \<Rightarrow> bool \<Rightarrow> hybridSyncManager \<Rightarrow> hybridSyncManager" where
  "pollTick endpoint lucky s =
    (if \<not> pollInterval s then s
     else if (websocket s = None \<or> websocket s = Some CLOSED) \<and> lucky then
       (case connectWebSocket endpoint s of Some s' \<Rightarrow> s' | None \<Rightarrow> s)
     else s)"

text \<open>
  The callback of the reconnect timer (lines 450-459) in a round that does not connect:
  either \<open>connectWebSocket\<close> throws and the callback calls \<open>scheduleReconnect\<close> itself, or
  the socket is created, fails, and its \<open>error\<close> and \<open>close\<close> events arrive.
\<close>

definition reconnectFails :: "bool \<Rightarrow> hybridSyncManager \<Rightarrow> hybridSyncManager" where
  "reconnectFails endpoint s =
    (if m_isEnabled s \<and> m_clientId s \<noteq> None then
       (case connectWebSocket endpoint s of
          None \<Rightarrow> scheduleReconnect s
        | Some s' \<Rightarrow> onclose (onerror s'))
     else s)"

text \<open>\<open>stopSync\<close> (lines 291-299) and \<open>setEnabled(false)\<close> (lines 304-312).\<close>

definition closeWebSocket :: "hybridSyncManager \<Rightarrow> hybridSyncManager" where
  "closeWebSocket s = (if websocket s \<noteq> None then s \<lparr> websocket := None \<rparr> else s)"

definition stopSync :: "hybridSyncManager \<Rightarrow> hybridSyncManager" where
  "stopSync s =
    emit \<lparr> ev_connected = False, ev_method = ''none'' \<rparr>
      ((clearReconnectTimeout (stopPolling (closeWebSocket s))) \<lparr> connectionState := Disconnected \<rparr>)"

definition setEnabledFalse :: "hybridSyncManager \<Rightarrow> hybridSyncManager" where
  "setEnabledFalse s = stopSync (s \<lparr> m_isEnabled := False \<rparr>)"


section \<open>Concrete states used below\<close>

text \<open>A stored record written by session \<open>A\<close>, and rows arriving for the same key.\<close>

definition existingA :: stored where
  "existingA =
    \<lparr> host = ''example.com'', date = ''20240105'', focus = 100, time = 50,
      sessionId = ''A'', lastModified = 1000, clientId = ''c1'', batchId = ''b0'',
      PK = ''c1#example.com#20240105'', SK = ''data'', version = 3, ttl = 0,
      conflictResolution = None \<rparr>"

definition incomingA :: incoming where
  "incomingA =
    \<lparr> host = ''example.com'', date = ''20240105'', focus = 30, time = 10,
      sessionId = ''A'', lastModified = 1200, clientId = ''c1'', batchId = ''b1'' \<rparr>"

definition incomingB_newer :: incoming where
  "incomingB_newer =
    \<lparr> host = ''example.com'', date = ''20240105'', focus = 80, time = 70,
      sessionId = ''B'', lastModified = 1200, clientId = ''c2'', batchId = ''b2'' \<rparr>"

definition incomingB_older :: incoming where
  "incomingB_older =
    \<lparr> host = ''example.com'', date = ''20240105'', focus = 80, time = 10,
      sessionId = ''B'', lastModified = 900, clientId = ''c1'', batchId = ''b3'' \<rparr>"

definition incomingB_larger :: incoming where
  "incomingB_larger =
    \<lparr> host = ''example.com'', date = ''20240105'', focus = 200, time = 10,
      sessionId = ''B'', lastModified = 900, clientId = ''c1'', batchId = ''b4'' \<rparr>"



definition rowB_older :: enhanced where
  "rowB_older =
    \<lparr> host = ''example.com'', date = ''20240105'', focus = 80, time = 10,
      sessionId = ''B'', lastModified = 900 \<rparr>"

text \<open>
  A download of January 2024 asked for in June 2024. The hot table holds a record of
  5 January modified on 8 January; the archive blob of the month holds an entry for the
  same host and day modified on 10 January.
\<close>

definition date2024 :: jsDate where
  "date2024 =
    \<lparr> toISOString = (\<lambda>t. if t = 1704067200000 then ''2024-01-01T00:00:00.000Z''
                          else if t = 1706659200000 then ''2024-01-31T00:00:00.000Z''
                          else []),
      parseDate = (\<lambda>s. if s = ''2024-01-05'' then Some 1704412800000 else None) \<rparr>"

definition hotJan :: table where
  "hotJan =
    [\<lparr> host = ''example.com'', date = ''20240105'', focus = 5, time = 5,
       sessionId = ''B'', lastModified = 1704672000000, clientId = ''c1'', batchId = ''b7'',
       PK = ''c1#example.com#20240105'', SK = ''data'', version = 1, ttl = 0,
       conflictResolution = None \<rparr>]"

definition coldJan :: bucket where
  "coldJan =
    (\<lambda>k. if k = ''clients/c1/monthly/202401.json.gz''
         then Some [\<lparr> host = ''example.com'', date = ''20240105'', focus = 9, time = 9,
                      sessionId = ''A'', lastModified = 1704844800000 \<rparr>]
         else None)"

text \<open>Queue states: a full queue of 1000 distinct batches, and batches that have failed
  twice and not at all.\<close>

definition batchNo :: "nat \<Rightarrow> nat pendingSync" where
  "batchNo i = \<lparr> rows = [i], timestamp = int i, retryCount = 0, p_batchId = ''bg'' \<rparr>"

definition fullQueue :: "nat backgroundSyncService" where
  "fullQueue =
    \<lparr> isEnabled = True, syncQueue = map batchNo [0..<1000], isProcessing = False,
      stats = \<lparr> totalSynced = 0, totalFailed = 0, lastSyncTime = 0, pendingCount = 1000,
                isOnline = False \<rparr>,
      timers = 0 \<rparr>"

definition failedTwice :: "nat pendingSync" where
  "failedTwice = \<lparr> rows = [7, 8], timestamp = 10, retryCount = 2, p_batchId = ''bg_10_x'' \<rparr>"

definition fresh :: "nat pendingSync" where
  "fresh = \<lparr> rows = [9], timestamp = 20, retryCount = 0, p_batchId = ''bg_20_y'' \<rparr>"

definition queueOf :: "nat pendingSync list \<Rightarrow> nat backgroundSyncService" where
  "queueOf q =
    \<lparr> isEnabled = True, syncQueue = q, isProcessing = False,
      stats = \<lparr> totalSynced = 0, totalFailed = 0, lastSyncTime = 0, pendingCount = length q,
                isOnline = True \<rparr>,
      timers = 0 \<rparr>"

text \<open>The full queue on line, and two things a delivery can meet: an upload that the
  network rejects, and a failed authorisation.\<close>

definition fullQueueOnline :: "nat backgroundSyncService" where
  "fullQueueOnline = fullQueue \<lparr> stats := (stats fullQueue) \<lparr> isOnline := True \<rparr> \<rparr>"

definition uploadRejected :: delivery where
  "uploadRejected =
    \<lparr> authErrorMsg = None, coordinator = Some AwsCoordinator, backupType = ''aws'',
      metaCid = Some ''c1'', configOk = True, uploadResult = UploadRejected \<rparr>"

definition authFails :: delivery where
  "authFails =
    \<lparr> authErrorMsg = Some ''AWS API key is required'', coordinator = Some AwsCoordinator,
      backupType = ''aws'', metaCid = Some ''c1'', configOk = True,
      uploadResult = UploadResponse 0 \<rparr>"

text \<open>An enabled manager whose socket has just opened.\<close>

definition connectedManager :: hybridSyncManager where
  "connectedManager =
    \<lparr> websocket = Some OPEN, pollInterval = False, reconnectTimeout = None,
      backoffMultiplier = 1, connectionState = Connected, m_isEnabled = True,
      m_clientId = Some ''c1'', emitted = [] \<rparr>"

text \<open>
  The same manager after it has been disabled, the close event of the socket it closed
  has arrived, a polling tick has reconnected, and the new socket has opened.
\<close>

definition reconnectedWhileDisabled :: hybridSyncManager where
  "reconnectedWhileDisabled =
    onopen (pollTick True True (onclose (setEnabledFalse connectedManager)))"

section \<open>Properties of the row merge function\<close>

text \<open>
  Claim C1. When the incoming row comes from the session that wrote the stored record,
  the merge accumulates: focus and time are the sums, lastModified is the maximum of the
  two, the version is the stored version plus one, and no conflict is recorded.
\<close>

theorem resolveConflict_same_session:
  assumes "sessionId existing = sessionId inc"
  shows "focus (resolved (resolveConflict now existing inc)) = focus existing + focus inc \<and>
         time (resolved (resolveConflict now existing inc)) = time existing + time inc \<and>
         lastModified (resolved (resolveConflict now existing inc))
           = max (lastModified existing) (lastModified inc) \<and>
         version (resolved (resolveConflict now existing inc)) = version existing + 1 \<and>
         conflicts (resolveConflict now existing inc) = []"
  using assms by (simp add: resolveConflict_def)

text \<open>The scenario of the specification: 100/50 at version 3 merged with 30/10 of the same
  session gives 130/60 at version 4 and no conflict.\<close>

theorem resolveConflict_same_session_witness:
  "sessionId existingA = sessionId incomingA \<and>
   focus existingA = 100 \<and> time existingA = 50 \<and> version existingA = 3 \<and>
   focus incomingA = 30 \<and> time incomingA = 10 \<and>
   focus (resolved (resolveConflict 5000 existingA incomingA)) = 130 \<and>
   time (resolved (resolveConflict 5000 existingA incomingA)) = 60 \<and>
   lastModified (resolved (resolveConflict 5000 existingA incomingA)) = 1200 \<and>
   version (resolved (resolveConflict 5000 existingA incomingA)) = 4 \<and>
   conflicts (resolveConflict 5000 existingA incomingA) = []"
proof -
  have same: "sessionId existingA = sessionId incomingA"
    by (simp add: existingA_def incomingA_def)
  show ?thesis
    using resolveConflict_same_session [OF same, of 5000] same
    by (simp add: existingA_def incomingA_def)
qed

text \<open>
  Claim C2. When the sessions differ and the incoming row is strictly newer, the merge
  takes the maximum of focus and of time, takes client and session from the incoming row,
  raises the version by one, and records exactly one \<open>session_conflict\<close> that carries the
  stored focus, time and lastModified.
\<close>

theorem resolveConflict_newer_wins:
  assumes "sessionId existing \<noteq> sessionId inc"
    and "lastModified existing < lastModified inc"
  shows "focus (resolved (resolveConflict now existing inc)) = max (focus existing) (focus inc) \<and>
         time (resolved (resolveConflict now existing inc)) = max (time existing) (time inc) \<and>
         clientId (resolved (resolveConflict now existing inc)) = clientId inc \<and>
         sessionId (resolved (resolveConflict now existing inc)) = sessionId inc \<and>
         version (resolved (resolveConflict now existing inc)) = version existing + 1 \<and>
         conflicts (resolveConflict now existing inc) =
           [\<lparr> ctype = session_conflict,
              c_clientId = clientId existing,
              c_sessionId = sessionId existing,
              rejected = None,
              reason = None,
              overwritten = Some \<lparr> o_focus = focus existing, o_time = time existing,
                                    o_lastModified = lastModified existing \<rparr> \<rparr>]"
  using assms by (simp add: resolveConflict_def)

theorem resolveConflict_newer_wins_witness:
  "sessionId existingA \<noteq> sessionId incomingB_newer \<and>
   lastModified existingA < lastModified incomingB_newer \<and>
   focus (resolved (resolveConflict 5000 existingA incomingB_newer)) = 100 \<and>
   time (resolved (resolveConflict 5000 existingA incomingB_newer)) = 70 \<and>
   clientId (resolved (resolveConflict 5000 existingA incomingB_newer)) = ''c2'' \<and>
   sessionId (resolved (resolveConflict 5000 existingA incomingB_newer)) = ''B'' \<and>
   version (resolved (resolveConflict 5000 existingA incomingB_newer)) = 4 \<and>
   conflicts (resolveConflict 5000 existingA incomingB_newer) =
     [\<lparr> ctype = session_conflict, c_clientId = ''c1'', c_sessionId = ''A'',
        rejected = None, reason = None,
        overwritten = Some \<lparr> o_focus = 100, o_time = 50, o_lastModified = 1000 \<rparr> \<rparr>]"
proof -
  have other: "sessionId existingA \<noteq> sessionId incomingB_newer"
    by (simp add: existingA_def incomingB_newer_def)
  have newer: "lastModified existingA < lastModified incomingB_newer"
    by (simp add: existingA_def incomingB_newer_def)
  show ?thesis
    using resolveConflict_newer_wins [OF other newer, of 5000] other newer
    by (simp add: existingA_def incomingB_newer_def)
qed

text \<open>
  Claim C3. When the sessions differ and the incoming row is not newer, the resolved
  record is the stored record itself, and exactly one \<open>timestamp_conflict\<close> with
  \<open>rejected: true\<close> is recorded.
\<close>

theorem resolveConflict_rejects_older:
  assumes "sessionId existing \<noteq> sessionId inc"
    and "lastModified inc \<le> lastModified existing"
  shows "resolved (resolveConflict now existing inc) = existing \<and>
         conflicts (resolveConflict now existing inc) =
           [\<lparr> ctype = timestamp_conflict,
              c_clientId = clientId inc,
              c_sessionId = sessionId inc,
              rejected = Some True,
              reason = Some ''older_timestamp'',
              overwritten = None \<rparr>]"
  using assms by (simp add: resolveConflict_def)

theorem resolveConflict_rejects_older_witness:
  "sessionId existingA \<noteq> sessionId incomingB_older \<and>
   lastModified incomingB_older \<le> lastModified existingA \<and>
   resolved (resolveConflict 5000 existingA incomingB_older) = existingA \<and>
   map ctype (conflicts (resolveConflict 5000 existingA incomingB_older)) = [timestamp_conflict] \<and>
   map rejected (conflicts (resolveConflict 5000 existingA incomingB_older)) = [Some True]"
proof -
  have other: "sessionId existingA \<noteq> sessionId incomingB_older"
    by (simp add: existingA_def incomingB_older_def)
  have older: "lastModified incomingB_older \<le> lastModified existingA"
    by (simp add: existingA_def incomingB_older_def)
  show ?thesis
    using resolveConflict_rejects_older [OF other older, of 5000] other older
    by simp
qed

text \<open>
  Claim C4, as the code has it. For an incoming row with non-negative focus and time, the
  resolved focus and time are never below the stored ones, on every branch. When the
  sessions differ and the incoming row is strictly newer, the resolved focus is the
  maximum of the two. When the sessions differ and the incoming row is not newer, the
  row is rejected and the resolved focus is the stored focus, whatever the incoming one.
\<close>

theorem resolveConflict_monotone:
  assumes "0 \<le> focus inc" and "0 \<le> time inc"
  shows "focus existing \<le> focus (resolved (resolveConflict now existing inc)) \<and>
         time existing \<le> time (resolved (resolveConflict now existing inc)) \<and>
         (sessionId existing \<noteq> sessionId inc \<and> lastModified existing < lastModified inc \<longrightarrow>
            max (focus existing) (focus inc) \<le> focus (resolved (resolveConflict now existing inc))) \<and>
         (sessionId existing \<noteq> sessionId inc \<and> lastModified inc \<le> lastModified existing \<longrightarrow>
            focus (resolved (resolveConflict now existing inc)) = focus existing)"
  using assms by (simp add: resolveConflict_def)

theorem resolveConflict_monotone_witness:
  "0 \<le> focus incomingB_newer \<and> 0 \<le> time incomingB_newer \<and>
   sessionId existingA \<noteq> sessionId incomingB_newer \<and>
   lastModified existingA < lastModified incomingB_newer \<and>
   focus existingA \<le> focus (resolved (resolveConflict 5000 existingA incomingB_newer)) \<and>
   time existingA \<le> time (resolved (resolveConflict 5000 existingA incomingB_newer)) \<and>
   max (focus existingA) (focus incomingB_newer)
     \<le> focus (resolved (resolveConflict 5000 existingA incomingB_newer)) \<and>
   0 \<le> focus incomingB_larger \<and> 0 \<le> time incomingB_larger \<and>
   sessionId existingA \<noteq> sessionId incomingB_larger \<and>
   lastModified incomingB_larger \<le> lastModified existingA \<and>
   focus (resolved (resolveConflict 5000 existingA incomingB_larger)) = focus existingA"
proof -
  have n: "0 \<le> focus incomingB_newer" "0 \<le> time incomingB_newer"
      "sessionId existingA \<noteq> sessionId incomingB_newer"
      "lastModified existingA < lastModified incomingB_newer"
    by (simp_all add: existingA_def incomingB_newer_def)
  have l: "0 \<le> focus incomingB_larger" "0 \<le> time incomingB_larger"
      "sessionId existingA \<noteq> sessionId incomingB_larger"
      "lastModified incomingB_larger \<le> lastModified existingA"
    by (simp_all add: existingA_def incomingB_larger_def)
  show ?thesis
    using resolveConflict_monotone [OF n(1) n(2), of existingA 5000]
      resolveConflict_monotone [OF l(1) l(2), of existingA 5000] n l
    by simp
qed

text \<open>
  The claim as written asks for \<open>resolved.focus \<ge> max(existing.focus, incoming.focus)\<close> on
  every merge across clients. A rejected row with the larger focus refutes it: stored
  focus 100, incoming focus 200 from another session with an older timestamp, resolved
  focus 100.
\<close>

theorem resolveConflict_reject_below_max:
  "0 \<le> focus incomingB_larger \<and> 0 \<le> time incomingB_larger \<and>
   sessionId existingA \<noteq> sessionId incomingB_larger \<and>
   focus (resolved (resolveConflict 5000 existingA incomingB_larger)) = 100 \<and>
   max (focus existingA) (focus incomingB_larger) = 200 \<and>
   \<not> max (focus existingA) (focus incomingB_larger)
       \<le> focus (resolved (resolveConflict 5000 existingA incomingB_larger))"
  by (simp add: resolveConflict_def existingA_def incomingB_larger_def)

section \<open>Properties of the versioned store and of processRow\<close>

lemma getItem_key:
  "getItem tbl pk sk = Some it \<Longrightarrow> PK it = pk \<and> SK it = sk"
  by (auto simp: getItem_def find_Some_iff)





lemma finalData_existing:
  assumes "getItem tbl (generatePK cid (host r) (date r)) ''data'' = Some existing"
  shows "finalData now ttlNow tbl cid r bid =
           (resolved (resolveConflict ttlNow existing (incomingOf now cid r bid)),
            conflicts (resolveConflict ttlNow existing (incomingOf now cid r bid)))"
  using assms by (simp add: finalData_def Let_def)

text \<open>A rejected row cannot be written: the record offered is the stored one, whose
  version is not below itself.\<close>

lemma attempt_reject:
  assumes "getItem tbl (generatePK cid (host r) (date r)) ''data'' = Some existing"
    and "sessionId existing \<noteq> sessionId r"
    and "js_or (lastModified r) now \<le> lastModified existing"
  shows "attempt now ttlNow tbl cid r bid = Inl ConditionalCheckFailedException"
proof -
  have k: "PK existing = generatePK cid (host r) (date r)" "SK existing = ''data''"
    using getItem_key [OF assms(1)] by simp_all
  have "resolved (resolveConflict ttlNow existing (incomingOf now cid r bid)) = existing"
    using assms(2,3) by (simp add: resolveConflict_def incomingOf_def)
  then have fd: "fst (finalData now ttlNow tbl cid r bid) = existing"
    by (simp add: finalData_existing [OF assms(1)])
  have "putItem existing tbl = Inl ConditionalCheckFailedException"
    using assms(1) k by (simp add: putItem_def)
  then show ?thesis
    using fd by (simp add: attempt_def case_prod_beta)
qed


text \<open>If \<open>processRow\<close> returns, one of its passes wrote.\<close>

lemma processRow_Some_attempt:
  assumes "processRow clock ttlClock k tbl cid r bid = Some y"
  shows "\<exists>j. k \<le> j \<and> attempt (clock j) (ttlClock j) tbl cid r bid = Inr y"
proof (rule processRow.raw_induct
    [where P = "\<lambda>clock ttlClock k tbl cid r bid y.
        \<exists>j. k \<le> j \<and> attempt (clock j) (ttlClock j) tbl cid r bid = Inr y",
     OF _ assms])
  fix f :: "(nat \<Rightarrow> int) \<Rightarrow> (nat \<Rightarrow> int) \<Rightarrow> nat \<Rightarrow> table \<Rightarrow> string \<Rightarrow> 'a enhanced_scheme \<Rightarrow> string
      \<Rightarrow> (row_result \<times> table) option"
  fix clock ttlClock k tbl cid r bid y
  assume IH: "\<And>clock ttlClock k tbl cid r bid y. f clock ttlClock k tbl cid r bid = Some y \<Longrightarrow>
      \<exists>j. k \<le> j \<and> attempt (clock j) (ttlClock j) tbl cid r bid = Inr y"
  assume step: "(case attempt (clock k) (ttlClock k) tbl cid r bid of
      Inl ConditionalCheckFailedException \<Rightarrow> f clock ttlClock (Suc k) tbl cid r bid
    | Inr res \<Rightarrow> Some res) = Some y"
  show "\<exists>j. k \<le> j \<and> attempt (clock j) (ttlClock j) tbl cid r bid = Inr y"
  proof (cases "attempt (clock k) (ttlClock k) tbl cid r bid")
    case (Inl e)
    have e: "e = ConditionalCheckFailedException"
      by (cases e) simp
    have "f clock ttlClock (Suc k) tbl cid r bid = Some y"
      using step unfolding Inl e by simp
    then have "\<exists>j. Suc k \<le> j \<and> attempt (clock j) (ttlClock j) tbl cid r bid = Inr y"
      by (rule IH)
    then obtain j where j: "Suc k \<le> j" "attempt (clock j) (ttlClock j) tbl cid r bid = Inr y"
      by blast
    have "k \<le> j"
      using j(1) by simp
    then show ?thesis
      using j(2) by blast
  next
    case (Inr res)
    have "res = y"
      using step unfolding Inr by simp
    then show ?thesis
      using Inr by blast
  qed
qed

lemma processRow_reject_diverges:
  assumes "getItem tbl (generatePK cid (host r) (date r)) ''data'' = Some existing"
    and "sessionId existing \<noteq> sessionId r"
    and "\<And>j. js_or (lastModified r) (clock j) \<le> lastModified existing"
  shows "processRow clock ttlClock k tbl cid r bid = None"
proof (cases "processRow clock ttlClock k tbl cid r bid")
  case None
  then show ?thesis .
next
  case (Some y)
  from processRow_Some_attempt [OF this]
  obtain j where "attempt (clock j) (ttlClock j) tbl cid r bid = Inr y"
    by blast
  moreover have "attempt (clock j) (ttlClock j) tbl cid r bid = Inl ConditionalCheckFailedException"
    using assms by (rule attempt_reject)
  ultimately show ?thesis by simp
qed


lemma getItem_existingA:
  "getItem [existingA] (generatePK ''c1'' ''example.com'' ''20240105'') ''data'' = Some existingA"
  by (simp add: getItem_def generatePK_def existingA_def)

text \<open>
  Claim C5 fails on the code. The stored record was written by session \<open>A\<close> at time 1000;
  a row of session \<open>B\<close> stamped 900 arrives for the same key. The merge rejects the row and
  offers the stored record again, so the condition \<open>version < :newVersion\<close> compares the
  stored version with itself and the write fails; the retry reads the same record and
  fails the same way. With no other writer, whatever the clock, \<open>processRow\<close> never
  returns.
\<close>

theorem processRow_rejected_row_never_returns:
  "resolved (resolveConflict ttlNow existingA (incomingOf now ''c1'' rowB_older ''b3''))
     = existingA \<and>
   attempt now ttlNow [existingA] ''c1'' rowB_older ''b3'' = Inl ConditionalCheckFailedException \<and>
   processRow clock ttlClock k [existingA] ''c1'' rowB_older ''b3'' = None"
proof -
  have g: "getItem [existingA] (generatePK ''c1'' (host rowB_older) (date rowB_older)) ''data''
      = Some existingA"
    using getItem_existingA by (simp add: rowB_older_def)
  have s: "sessionId existingA \<noteq> sessionId rowB_older"
    by (simp add: existingA_def rowB_older_def)
  have t: "js_or (lastModified rowB_older) n \<le> lastModified existingA" for n
    by (simp add: existingA_def rowB_older_def js_or_def)
  have "resolved (resolveConflict ttlNow existingA (incomingOf now ''c1'' rowB_older ''b3''))
      = existingA"
    using s t [of now] by (simp add: resolveConflict_def incomingOf_def)
  moreover have "attempt now ttlNow [existingA] ''c1'' rowB_older ''b3''
      = Inl ConditionalCheckFailedException"
    using g s t by (rule attempt_reject)
  moreover have "processRow clock ttlClock k [existingA] ''c1'' rowB_older ''b3'' = None"
    using g s t by (rule processRow_reject_diverges)
  ultimately show ?thesis by simp
qed



section \<open>Properties of the download\<close>

lemma map_set_fresh: "map_of m k = None \<Longrightarrow> map_set k v m = m @ [(k, v)]"
  by (induction m) (auto split: if_splits)

text \<open>Without a \<open>lastModified\<close> to compare, a row never replaces the one already held for
  its key: the first row seen for a key is the one kept.\<close>

lemma dedupStep_undefined:
  "dedupStep keyOf (\<lambda>r. None) m r =
     (case map_of m (keyOf r) of None \<Rightarrow> m @ [(keyOf r, r)] | Some e \<Rightarrow> m)"
  by (simp add: dedupStep_def js_gt_def map_set_fresh split: option.splits)

lemma downloadHotData_jan:
  "downloadHotData date2024 hotJan ''c1'' 1704067200000 1706659200000
     = [\<lparr> host = ''example.com'', date = ''20240105'', focus = 5, time = 5 \<rparr>]"
  by (simp add: downloadHotData_def formatDate_def date2024_def hotJan_def
      queryClientIndex_def Let_def)

lemma downloadColdData_jan:
  "downloadColdData date2024 coldJan [''202401''] ''c1'' 1704067200000 1706659200000
     = [\<lparr> host = ''example.com'', date = ''20240105'', focus = 9, time = 9 \<rparr>]"
  by (simp add: downloadColdData_def date2024_def coldJan_def generateMonthlyS3Key_def
      inRange_def)

lemma deduplicateRows_jan:
  "deduplicateRows (\<lambda>r. None)
     [\<lparr> host = ''example.com'', date = ''20240105'', focus = 5, time = 5 \<rparr>,
      \<lparr> host = ''example.com'', date = ''20240105'', focus = 9, time = 9 \<rparr>]
   = [\<lparr> host = ''example.com'', date = ''20240105'', focus = 5, time = 5 \<rparr>]"
  by (simp add: deduplicateRows_def dedupStep_def js_gt_def)

text \<open>
  Claim C6 fails on the code. Both tiers hold an entry for \<open>example.com\<close> on 5 January 2024;
  the archive entry is the later one (modified 10 January, the hot one 8 January). The
  rows that reach \<open>deduplicateRows\<close> have lost \<open>lastModified\<close>, the comparison
  \<open>row.lastModified > existing.lastModified\<close> is false, and the first row seen, the hot
  one, is returned.
\<close>

theorem downloadData_keeps_first_seen:
  "map lastModified hotJan = [1704672000000] \<and>
   map_option (map lastModified) (coldJan (generateMonthlyS3Key ''c1'' ''202401''))
     = Some [1704844800000] \<and>
   downloadHotData date2024 hotJan ''c1'' 1704067200000 1706659200000
     = [\<lparr> host = ''example.com'', date = ''20240105'', focus = 5, time = 5 \<rparr>] \<and>
   downloadColdData date2024 coldJan [''202401''] ''c1'' 1704067200000 1706659200000
     = [\<lparr> host = ''example.com'', date = ''20240105'', focus = 9, time = 9 \<rparr>] \<and>
   downloadData date2024 1717200000000 hotJan coldJan [''202401''] ''c1''
       1704067200000 1706659200000
     = [\<lparr> host = ''example.com'', date = ''20240105'', focus = 5, time = 5 \<rparr>]"
proof -
  have "map lastModified hotJan = [1704672000000]"
    by (simp add: hotJan_def)
  moreover have "map_option (map lastModified) (coldJan (generateMonthlyS3Key ''c1'' ''202401''))
      = Some [1704844800000]"
    by (simp add: coldJan_def generateMonthlyS3Key_def)
  moreover have "downloadData date2024 1717200000000 hotJan coldJan [''202401''] ''c1''
        1704067200000 1706659200000
      = [\<lparr> host = ''example.com'', date = ''20240105'', focus = 5, time = 5 \<rparr>]"
    by (simp add: downloadData_def downloadHotData_jan downloadColdData_jan deduplicateRows_jan)
  ultimately show ?thesis
    using downloadHotData_jan downloadColdData_jan by simp
qed

section \<open>Properties of the outbound queue\<close>

lemma dropOldest_drop: "dropOldest q = drop (length q - maxQueueSize) q"
proof (induction q rule: dropOldest.induct)
  case (1 q)
  show ?case
  proof (cases "length q > maxQueueSize")
    case True
    then obtain x xs where q: "q = x # xs"
      by (cases q) auto
    have "dropOldest q = dropOldest (tl q)"
      using True by (subst dropOldest.simps) simp
    also have "\<dots> = drop (length (tl q) - maxQueueSize) (tl q)"
      using 1 True by simp
    also have "\<dots> = drop (length q - maxQueueSize) q"
      using True q by (simp add: Suc_diff_le)
    finally show ?thesis .
  next
    case False
    then show ?thesis
      by (subst dropOldest.simps) simp
  qed
qed

lemma queueForSync_queue:
  assumes "isEnabled s" and "rws \<noteq> []"
  shows "syncQueue (queueForSync now bid rws s) =
    dropOldest (syncQueue s @ [\<lparr> rows = rws, timestamp = now, retryCount = 0, p_batchId = bid \<rparr>])"
  using assms by (simp add: queueForSync_def Let_def)

text \<open>
  Claim C7. After an enqueue that is accepted (the service is enabled and the rows are not
  empty) the queue holds at most 1000 batches (\<open>maxQueueSize\<close>), and no call of
  \<open>queueForSync\<close> takes a queue of at most 1000 batches beyond 1000. The new batch goes
  to the tail; a queue below the cap loses nothing, and a queue that held exactly 1000
  batches loses its head and nothing else, so it holds 1000 again.
\<close>

theorem queueForSync_bounded:
  "(isEnabled s \<and> rws \<noteq> [] \<longrightarrow>
      length (syncQueue (queueForSync now bid rws s)) \<le> 1000) \<and>
   (length (syncQueue s) \<le> 1000 \<longrightarrow>
      length (syncQueue (queueForSync now bid rws s)) \<le> 1000) \<and>
   (isEnabled s \<and> rws \<noteq> [] \<and> length (syncQueue s) < 1000 \<longrightarrow>
      syncQueue (queueForSync now bid rws s)
        = syncQueue s @ [\<lparr> rows = rws, timestamp = now, retryCount = 0, p_batchId = bid \<rparr>]) \<and>
   (isEnabled s \<and> rws \<noteq> [] \<and> length (syncQueue s) = 1000 \<longrightarrow>
      syncQueue (queueForSync now bid rws s)
        = tl (syncQueue s) @ [\<lparr> rows = rws, timestamp = now, retryCount = 0, p_batchId = bid \<rparr>] \<and>
      length (syncQueue (queueForSync now bid rws s)) = 1000)"
proof (intro conjI impI)
  assume "isEnabled s \<and> rws \<noteq> []"
  then show "length (syncQueue (queueForSync now bid rws s)) \<le> 1000"
    by (simp add: queueForSync_queue dropOldest_drop maxQueueSize_def)
next
  assume le: "length (syncQueue s) \<le> 1000"
  show "length (syncQueue (queueForSync now bid rws s)) \<le> 1000"
  proof (cases "isEnabled s \<and> rws \<noteq> []")
    case True
    then show ?thesis
      by (simp add: queueForSync_queue dropOldest_drop maxQueueSize_def)
  next
    case False
    then have "queueForSync now bid rws s = s"
      by (auto simp: queueForSync_def)
    then show ?thesis
      using le by simp
  qed
next
  assume "isEnabled s \<and> rws \<noteq> [] \<and> length (syncQueue s) < 1000"
  then show "syncQueue (queueForSync now bid rws s)
      = syncQueue s @ [\<lparr> rows = rws, timestamp = now, retryCount = 0, p_batchId = bid \<rparr>]"
    by (simp add: queueForSync_queue dropOldest_drop maxQueueSize_def)
next
  assume a: "isEnabled s \<and> rws \<noteq> [] \<and> length (syncQueue s) = 1000"
  then obtain b rest where q: "syncQueue s = b # rest"
    by (cases "syncQueue s") auto
  show "syncQueue (queueForSync now bid rws s)
      = tl (syncQueue s) @ [\<lparr> rows = rws, timestamp = now, retryCount = 0, p_batchId = bid \<rparr>]"
    using a q by (simp add: queueForSync_queue dropOldest_drop maxQueueSize_def)
  show "length (syncQueue (queueForSync now bid rws s)) = 1000"
    using a by (simp add: queueForSync_queue dropOldest_drop maxQueueSize_def)
qed

text \<open>The scenario of the specification: a queue of 1000 batches takes one more and holds
  1000, without its oldest batch.\<close>

theorem queueForSync_bounded_witness:
  "isEnabled fullQueue \<and> [1000] \<noteq> ([] :: nat list) \<and>
   length (syncQueue fullQueue) = 1000 \<and>
   syncQueue (queueForSync 77 ''bg_77_z'' [1000] fullQueue)
     = tl (syncQueue fullQueue)
         @ [\<lparr> rows = [1000], timestamp = 77, retryCount = 0, p_batchId = ''bg_77_z'' \<rparr>] \<and>
   length (syncQueue (queueForSync 77 ''bg_77_z'' [1000] fullQueue)) = 1000 \<and>
   isEnabled (queueOf [fresh]) \<and> length (syncQueue (queueOf [fresh])) < 1000 \<and>
   syncQueue (queueForSync 77 ''bg_77_z'' [1000] (queueOf [fresh]))
     = [fresh, \<lparr> rows = [1000], timestamp = 77, retryCount = 0, p_batchId = ''bg_77_z'' \<rparr>]"
proof -
  have h: "isEnabled fullQueue" "[1000] \<noteq> ([] :: nat list)"
      "length (syncQueue fullQueue) = 1000"
    by (simp_all add: fullQueue_def)
  have f: "isEnabled (queueOf [fresh])" "length (syncQueue (queueOf [fresh])) < 1000"
      "syncQueue (queueOf [fresh]) = [fresh]"
    by (simp_all add: queueOf_def)
  show ?thesis
    using queueForSync_bounded [of fullQueue "[1000]" 77 "''bg_77_z''"]
      queueForSync_bounded [of "queueOf [fresh]" "[1000]" 77 "''bg_77_z''"] h f
    by simp
qed

text \<open>One iteration of the loop, by what \<open>syncBatch\<close> does with the head batch.\<close>

lemma processLoop_success:
  assumes "syncQueue s = b # rest" and "pc < maxBatches" and "syncBatch (env i) b = Inr ()"
  shows "processLoop env arrivals clock i pc s =
    processLoop env arrivals clock (Suc i) (Suc pc)
      ((enqueueAll (arrivals i) s)
         \<lparr> syncQueue := tl (syncQueue (enqueueAll (arrivals i) s)),
           stats := (stats (enqueueAll (arrivals i) s))
             \<lparr> totalSynced := totalSynced (stats (enqueueAll (arrivals i) s)) + length (rows b),
               lastSyncTime := clock i \<rparr> \<rparr>)"
  using assms by (subst processLoop.simps) (simp add: Let_def)

lemma processLoop_drop:
  assumes "syncQueue s = b # rest" and "pc < maxBatches" and "syncBatch (env i) b \<noteq> Inr ()"
    and "maxRetries \<le> retryCount b + 1"
  shows "processLoop env arrivals clock i pc s =
    processLoop env arrivals clock (Suc i) pc
      ((enqueueAll (arrivals i) s)
         \<lparr> syncQueue := tl (syncQueue (enqueueAll (arrivals i) s)),
           stats := (stats (enqueueAll (arrivals i) s))
             \<lparr> totalFailed := totalFailed (stats (enqueueAll (arrivals i) s)) + length (rows b) \<rparr> \<rparr>)"
  using assms by (subst processLoop.simps) (simp add: Let_def)

lemma processLoop_requeue:
  assumes "syncQueue s = b # rest" and "pc < maxBatches" and "syncBatch (env i) b \<noteq> Inr ()"
    and "retryCount b + 1 < maxRetries"
  shows "processLoop env arrivals clock i pc s =
    (enqueueAll (arrivals i) s)
      \<lparr> syncQueue := tl (syncQueue (enqueueAll (arrivals i) s))
          @ [b \<lparr> retryCount := retryCount b + 1 \<rparr>] \<rparr>"
  using assms by (subst processLoop.simps) (simp add: Let_def)

lemma processLoop_stop:
  assumes "syncQueue s = [] \<or> \<not> pc < maxBatches"
  shows "processLoop env arrivals clock i pc s = s"
  using assms by (subst processLoop.simps) auto

text \<open>\<open>syncIncremental\<close> never throws, so for an \<open>AwsCoordinator\<close> that passes the checks of
  \<open>syncBatch\<close> every delivery returns, whatever the upload did.\<close>

lemma syncBatch_incremental:
  assumes "authErrorMsg d = None" and "coordinator d = Some AwsCoordinator"
    and "backupType d = ''aws''" and "metaCid d = Some c" and "c \<noteq> []"
  shows "syncBatch d batch = Inr ()"
  using assms by (simp add: syncBatch_def syncIncremental_def split: sum.splits)

text \<open>
  Claim C8 fails on the code, in two ways.

  A delivery whose upload fails is not seen as a failure. \<open>syncBatch\<close> hands the rows
  of an AWS batch to \<open>syncIncremental\<close>, which catches the error of the upload and
  returns; \<open>upload\<close>, beside it, throws. With the network rejecting the upload of a fresh
  batch, \<open>processQueue\<close> takes the batch out of the queue and counts its row as synced:
  the retry count is not raised and the batch is not put back.

  A batch can leave the queue without a delivery. The queue holds 1000 batches, the
  delivery of batch 0 throws, and one enqueue arrives during the \<open>await\<close>: the enqueue
  evicts batch 0, the \<open>shift\<close> after the \<open>await\<close> removes batch 1, and batch 0 is put
  back at the tail. Batch 1 was never delivered and is counted neither as synced nor as
  failed.
\<close>

theorem processQueue_swallowed_failure:
  "uploadResult uploadRejected = UploadRejected \<and>
   coordinatorUpload uploadRejected (rows fresh) = Inl (Error ''AWS upload failed: request failed'') \<and>
   syncBatch uploadRejected fresh = Inr () \<and>
   retryCount fresh = 0 \<and>
   processQueue (\<lambda>i. uploadRejected) (\<lambda>i. []) (\<lambda>i. 50) (queueOf [fresh])
     = (queueOf [fresh])
         \<lparr> syncQueue := [],
           stats := \<lparr> totalSynced = 1, totalFailed = 0, lastSyncTime = 50, pendingCount = 0,
                      isOnline = True \<rparr> \<rparr> \<and>
   length (syncQueue fullQueueOnline) = 1000 \<and>
   hd (syncQueue fullQueueOnline) = batchNo 0 \<and>
   syncQueue fullQueueOnline ! 1 = batchNo 1 \<and>
   syncBatch authFails (batchNo 0) = Inl (Error ''AWS API key is required'') \<and>
   syncQueue (processQueue (\<lambda>i. authFails)
       (\<lambda>i. if i = 0 then [(77, ''bg_77_z'', [1000])] else []) (\<lambda>i. 50) fullQueueOnline)
     = drop 2 (syncQueue fullQueueOnline)
         @ [\<lparr> rows = [1000], timestamp = 77, retryCount = 0, p_batchId = ''bg_77_z'' \<rparr>,
            (batchNo 0) \<lparr> retryCount := 1 \<rparr>] \<and>
   totalSynced (stats (processQueue (\<lambda>i. authFails)
       (\<lambda>i. if i = 0 then [(77, ''bg_77_z'', [1000])] else []) (\<lambda>i. 50) fullQueueOnline)) = 0 \<and>
   totalFailed (stats (processQueue (\<lambda>i. authFails)
       (\<lambda>i. if i = 0 then [(77, ''bg_77_z'', [1000])] else []) (\<lambda>i. 50) fullQueueOnline)) = 0"
proof -
  have mb: "(0::nat) < maxBatches" "Suc 0 < maxBatches"
    by (simp_all add: maxBatches_def batchSize_def)
  have up: "uploadResult uploadRejected = UploadRejected"
    by (simp add: uploadRejected_def)
  have sib: "coordinatorUpload uploadRejected (rows fresh)
      = Inl (Error ''AWS upload failed: request failed'')"
    by (simp add: coordinatorUpload_def uploadBody_def uploadRejected_def fresh_def)
  have sb: "syncBatch uploadRejected b = Inr ()" for b :: "nat pendingSync"
    by (rule syncBatch_incremental [where c = "''c1''"]) (simp_all add: uploadRejected_def)
  \<comment> \<open>the swallowed failure\<close>
  let ?s = "(queueOf [fresh]) \<lparr> isProcessing := True \<rparr>"
  let ?s' = "?s \<lparr> syncQueue := [],
      stats := (stats ?s) \<lparr> totalSynced := totalSynced (stats ?s) + length (rows fresh),
                            lastSyncTime := 50 \<rparr> \<rparr>"
  have q: "syncQueue ?s = fresh # []"
    by (simp add: queueOf_def)
  have l1: "processLoop (\<lambda>i. uploadRejected) (\<lambda>i. []) (\<lambda>i. 50) 0 0 ?s
      = processLoop (\<lambda>i. uploadRejected) (\<lambda>i. []) (\<lambda>i. 50) (Suc 0) (Suc 0) ?s'"
    using processLoop_success [where env = "\<lambda>i. uploadRejected" and arrivals = "\<lambda>i. []"
        and clock = "\<lambda>i. 50" and i = 0, OF q mb(1) sb]
    by (simp add: enqueueAll_def queueOf_def)
  have l2: "processLoop (\<lambda>i. uploadRejected) (\<lambda>i. []) (\<lambda>i. 50) (Suc 0) (Suc 0) ?s' = ?s'"
    by (rule processLoop_stop) simp
  have guard: "\<not> (isProcessing (queueOf [fresh]) \<or> syncQueue (queueOf [fresh]) = []
      \<or> \<not> isOnline (stats (queueOf [fresh])))"
    by (simp add: queueOf_def)
  have pq0: "processQueue (\<lambda>i. uploadRejected) (\<lambda>i. []) (\<lambda>i. 50) (queueOf [fresh])
      = (let s2 = processLoop (\<lambda>i. uploadRejected) (\<lambda>i. []) (\<lambda>i. 50) 0 0 ?s;
             s3 = s2 \<lparr> stats := (stats s2) \<lparr> pendingCount := length (syncQueue s2) \<rparr> \<rparr>
         in s3 \<lparr> isProcessing := False \<rparr>)"
    unfolding processQueue_def using guard by (simp only: if_False Let_def)
  have pq: "processQueue (\<lambda>i. uploadRejected) (\<lambda>i. []) (\<lambda>i. 50) (queueOf [fresh])
      = (queueOf [fresh])
          \<lparr> syncQueue := [],
            stats := \<lparr> totalSynced = 1, totalFailed = 0, lastSyncTime = 50, pendingCount = 0,
                       isOnline = True \<rparr> \<rparr>"
    unfolding pq0 l1 l2 Let_def by (simp add: queueOf_def fresh_def)
  \<comment> \<open>the enqueue during the await\<close>
  let ?arr = "\<lambda>i::nat. if i = 0 then [(77, ''bg_77_z'', [1000::nat])] else []"
  let ?new = "\<lparr> rows = [1000::nat], timestamp = 77, retryCount = 0, p_batchId = ''bg_77_z'' \<rparr>"
  let ?f = "fullQueueOnline \<lparr> isProcessing := True \<rparr>"
  have len: "length (syncQueue fullQueueOnline) = 1000"
    by (simp add: fullQueueOnline_def fullQueue_def)
  have hd0: "hd (syncQueue fullQueueOnline) = batchNo 0"
    by (simp add: fullQueueOnline_def fullQueue_def hd_map)
  have nth1: "syncQueue fullQueueOnline ! 1 = batchNo 1"
    by (simp add: fullQueueOnline_def fullQueue_def)
  obtain rest where fq: "syncQueue ?f = batchNo 0 # rest"
    using len hd0 by (cases "syncQueue fullQueueOnline") auto
  have thrown: "syncBatch authFails b = Inl (Error ''AWS API key is required'')"
    for b :: "nat pendingSync"
    by (simp add: syncBatch_def authFails_def)
  have ne: "syncBatch authFails (batchNo 0) \<noteq> Inr ()"
    by (simp add: thrown)
  have rc: "retryCount (batchNo 0) + 1 < maxRetries"
    by (simp add: batchNo_def maxRetries_def)
  have enq: "syncQueue (enqueueAll [(77, ''bg_77_z'', [1000])] ?f) = drop (Suc 0) (syncQueue fullQueueOnline) @ [?new]"
    using len
    by (simp add: enqueueAll_def queueForSync_def Let_def dropOldest_drop maxQueueSize_def
        fullQueueOnline_def fullQueue_def)
  have st: "stats (enqueueAll [(77, ''bg_77_z'', [1000])] ?f) = (stats fullQueueOnline) \<lparr> pendingCount := 1001 \<rparr>"
    by (simp add: enqueueAll_def queueForSync_def Let_def fullQueueOnline_def fullQueue_def)
  have tl2: "tl (drop (Suc 0) (syncQueue fullQueueOnline) @ [?new]) = drop 2 (syncQueue fullQueueOnline) @ [?new]"
  proof -
    have "drop (Suc 0) (syncQueue fullQueueOnline) \<noteq> []"
      using len by simp
    then have "tl (drop (Suc 0) (syncQueue fullQueueOnline) @ [?new])
        = tl (drop (Suc 0) (syncQueue fullQueueOnline)) @ [?new]"
      by simp
    also have "tl (drop (Suc 0) (syncQueue fullQueueOnline)) = drop 2 (syncQueue fullQueueOnline)"
      by (simp add: tl_drop drop_Suc numeral_2_eq_2)
    finally show ?thesis .
  qed
  have loop: "processLoop (\<lambda>i. authFails) ?arr (\<lambda>i. 50) 0 0 ?f
      = (enqueueAll (?arr 0) ?f)
          \<lparr> syncQueue := tl (syncQueue (enqueueAll (?arr 0) ?f))
              @ [(batchNo 0) \<lparr> retryCount := retryCount (batchNo 0) + 1 \<rparr>] \<rparr>"
    by (rule processLoop_requeue [where env = "\<lambda>i. authFails" and i = 0, OF fq mb(1) ne rc])
  have guardF: "\<not> (isProcessing fullQueueOnline \<or> syncQueue fullQueueOnline = []
      \<or> \<not> isOnline (stats fullQueueOnline))"
    using len by (auto simp: fullQueueOnline_def fullQueue_def)
  have pqF0: "processQueue (\<lambda>i. authFails) ?arr (\<lambda>i. 50) fullQueueOnline
      = (let s2 = processLoop (\<lambda>i. authFails) ?arr (\<lambda>i. 50) 0 0 ?f;
             s3 = s2 \<lparr> stats := (stats s2) \<lparr> pendingCount := length (syncQueue s2) \<rparr> \<rparr>
         in s3 \<lparr> isProcessing := False \<rparr>)"
    unfolding processQueue_def using guardF by (simp only: if_False Let_def)
  have qF: "syncQueue (processQueue (\<lambda>i. authFails) ?arr (\<lambda>i. 50) fullQueueOnline)
      = drop 2 (syncQueue fullQueueOnline) @ [?new, (batchNo 0) \<lparr> retryCount := 1 \<rparr>]"
    unfolding pqF0 loop Let_def by (simp add: enq tl2 batchNo_def)
  have sF: "totalSynced (stats (processQueue (\<lambda>i. authFails) ?arr (\<lambda>i. 50) fullQueueOnline)) = 0"
      "totalFailed (stats (processQueue (\<lambda>i. authFails) ?arr (\<lambda>i. 50) fullQueueOnline)) = 0"
    unfolding pqF0 loop Let_def by (simp_all add: st) (simp_all add: fullQueueOnline_def fullQueue_def)
  show ?thesis
    using up sib sb [of fresh] pq len hd0 nth1 thrown [of "batchNo 0"] qF sF
    by (simp add: fresh_def)
qed

section \<open>Properties of the transport manager\<close>

lemma backoff_arith:
  fixes x :: int
  assumes "1 \<le> x"
  shows "min (1000 * min x 60) 60000 = min (1000 * x) 60000"
    and "min (min x 60 * 2) 60 = min (x * 2) 60"
  using assms by (auto simp: min_def)

text \<open>One call of \<open>scheduleReconnect\<close>, and one close event, on an enabled manager.\<close>

lemma scheduleReconnect_enabled:
  assumes "m_isEnabled s"
  shows "reconnectTimeout (scheduleReconnect s)
           = Some (min (baseBackoffMs * backoffMultiplier s) maxBackoffMs)"
    and "backoffMultiplier (scheduleReconnect s) = min (backoffMultiplier s * 2) 60"
    and "m_isEnabled (scheduleReconnect s)"
    and "m_clientId (scheduleReconnect s) = m_clientId s"
  using assms by (simp_all add: scheduleReconnect_def clearReconnectTimeout_def Let_def)

lemma onclose_enabled:
  assumes "m_isEnabled s"
  shows "reconnectTimeout (onclose s)
           = Some (min (baseBackoffMs * backoffMultiplier s) maxBackoffMs)"
    and "backoffMultiplier (onclose s) = min (backoffMultiplier s * 2) 60"
    and "m_isEnabled (onclose s)"
    and "m_clientId (onclose s) = m_clientId s"
  using assms
  by (simp_all add: onclose_def emit_def startPolling_def scheduleReconnect_def
      clearReconnectTimeout_def Let_def)

text \<open>A close event on any manager, and on a manager that is not enabled.\<close>

lemma onclose_any:
  "connectionState (onclose s) = Disconnected \<and> websocket (onclose s) = None \<and>
   pollInterval (onclose s)"
  by (simp add: onclose_def emit_def startPolling_def scheduleReconnect_def
      clearReconnectTimeout_def Let_def)

lemma onclose_disabled:
  assumes "\<not> m_isEnabled s"
  shows "reconnectTimeout (onclose s) = reconnectTimeout s \<and>
         backoffMultiplier (onclose s) = backoffMultiplier s"
  using assms by (simp add: onclose_def emit_def startPolling_def scheduleReconnect_def)

text \<open>A reconnect round that fails schedules the next one from the current multiplier.\<close>

lemma reconnectFails_step:
  assumes "m_isEnabled s" and "m_clientId s \<noteq> None"
  shows "reconnectTimeout (reconnectFails endpoint s)
           = Some (min (baseBackoffMs * backoffMultiplier s) maxBackoffMs) \<and>
         backoffMultiplier (reconnectFails endpoint s) = min (backoffMultiplier s * 2) 60 \<and>
         m_isEnabled (reconnectFails endpoint s) \<and>
         m_clientId (reconnectFails endpoint s) \<noteq> None"
  using assms
  by (cases endpoint)
     (auto simp: reconnectFails_def connectWebSocket_def scheduleReconnect_enabled
        onclose_enabled onerror_def emit_def)

text \<open>
  Any way of scheduling again that takes the delay from the multiplier and doubles it up
  to 60, repeated \<open>n\<close> times after the close event: the delays are
  \<open>min (1000 * 2 ^ n) 60000\<close>.
\<close>

lemma backoff_rounds:
  fixes f :: "hybridSyncManager \<Rightarrow> hybridSyncManager"
  assumes step: "\<And>t. m_isEnabled t \<Longrightarrow> I t \<Longrightarrow>
      reconnectTimeout (f t) = Some (min (baseBackoffMs * backoffMultiplier t) maxBackoffMs) \<and>
      backoffMultiplier (f t) = min (backoffMultiplier t * 2) 60 \<and>
      m_isEnabled (f t) \<and> I (f t)"
    and en: "m_isEnabled s" and inv: "I (onclose s)" and one: "backoffMultiplier s = 1"
  shows "m_isEnabled ((f ^^ n) (onclose s)) \<and> I ((f ^^ n) (onclose s)) \<and>
         backoffMultiplier ((f ^^ n) (onclose s)) = min (2 ^ Suc n) 60 \<and>
         reconnectTimeout ((f ^^ n) (onclose s)) = Some (min (baseBackoffMs * 2 ^ n) maxBackoffMs)"
proof (induction n)
  case 0
  show ?case
    using en inv one by (simp add: onclose_enabled)
next
  case (Suc n)
  let ?t = "(f ^^ n) (onclose s)"
  have ten: "m_isEnabled ?t" and ti: "I ?t"
    and mult: "backoffMultiplier ?t = min (2 ^ Suc n) 60"
    using Suc by simp_all
  have pos: "(1::int) \<le> 2 ^ Suc n"
    by (rule one_le_power) simp
  have st: "reconnectTimeout (f ?t) = Some (min (baseBackoffMs * backoffMultiplier ?t) maxBackoffMs)"
      "backoffMultiplier (f ?t) = min (backoffMultiplier ?t * 2) 60"
      "m_isEnabled (f ?t)" "I (f ?t)"
    using step [OF ten ti] by simp_all
  have "reconnectTimeout (f ?t) = Some (min (1000 * min (2 ^ Suc n) 60) 60000)"
    using st(1) mult by (simp add: baseBackoffMs_def maxBackoffMs_def)
  then have delay: "reconnectTimeout (f ?t) = Some (min (baseBackoffMs * 2 ^ Suc n) maxBackoffMs)"
    using backoff_arith(1) [OF pos] by (simp add: baseBackoffMs_def maxBackoffMs_def)
  have "backoffMultiplier (f ?t) = min (min (2 ^ Suc n) 60 * 2) 60"
    using st(2) mult by simp
  then have m2: "backoffMultiplier (f ?t) = min (2 ^ Suc (Suc n)) 60"
    using backoff_arith(2) [OF pos] by (simp add: mult.commute)
  show ?case
    using st(3,4) delay m2 by simp
qed

text \<open>
  Claim C9, as the code has it. When the socket of a manager closes, whatever its state,
  the manager is disconnected and polling runs. If the manager is enabled, a reconnect is
  scheduled after \<open>min (1000 * multiplier) 60000\<close> ms: with the multiplier at 1, as
  \<open>onopen\<close> leaves it, that is the base delay of 1000 ms, the \<open>n\<close>-th call of
  \<open>scheduleReconnect\<close> after that sets a delay of \<open>min (1000 * 2 ^ n) 60000\<close> ms, so does
  the \<open>n\<close>-th reconnect round that fails for a manager with a client id, and the multiplier
  never exceeds 60. If the manager is not enabled, the close event leaves the reconnect
  timer and the multiplier as they were: no reconnect is scheduled.
\<close>

theorem onclose_schedules_reconnect:
  "connectionState (onclose s) = Disconnected \<and>
   websocket (onclose s) = None \<and>
   pollInterval (onclose s) \<and>
   baseBackoffMs = 1000 \<and> maxBackoffMs = 60000 \<and>
   (m_isEnabled s \<longrightarrow>
      reconnectTimeout (onclose s)
        = Some (min (baseBackoffMs * backoffMultiplier s) maxBackoffMs)) \<and>
   (m_isEnabled s \<and> backoffMultiplier s = 1 \<longrightarrow>
      reconnectTimeout (onclose s) = Some baseBackoffMs \<and>
      reconnectTimeout ((scheduleReconnect ^^ n) (onclose s))
        = Some (min (baseBackoffMs * 2 ^ n) maxBackoffMs) \<and>
      backoffMultiplier ((scheduleReconnect ^^ n) (onclose s)) \<le> 60 \<and>
      (m_clientId s \<noteq> None \<longrightarrow>
         reconnectTimeout ((reconnectFails endpoint ^^ n) (onclose s))
           = Some (min (baseBackoffMs * 2 ^ n) maxBackoffMs) \<and>
         backoffMultiplier ((reconnectFails endpoint ^^ n) (onclose s)) \<le> 60)) \<and>
   (\<not> m_isEnabled s \<longrightarrow>
      reconnectTimeout (onclose s) = reconnectTimeout s \<and>
      backoffMultiplier (onclose s) = backoffMultiplier s)"
proof -
  have bk: "baseBackoffMs = 1000" "maxBackoffMs = 60000"
    by (simp_all add: baseBackoffMs_def maxBackoffMs_def)
  have enabled: "reconnectTimeout (onclose s)
      = Some (min (baseBackoffMs * backoffMultiplier s) maxBackoffMs)" if "m_isEnabled s"
    using that by (simp add: onclose_enabled)
  have first: "reconnectTimeout (onclose s) = Some baseBackoffMs"
    if "m_isEnabled s" and "backoffMultiplier s = 1"
    using that by (simp add: onclose_enabled bk)
  have sched: "reconnectTimeout ((scheduleReconnect ^^ n) (onclose s))
        = Some (min (baseBackoffMs * 2 ^ n) maxBackoffMs) \<and>
      backoffMultiplier ((scheduleReconnect ^^ n) (onclose s)) \<le> 60"
    if en: "m_isEnabled s" and one: "backoffMultiplier s = 1"
  proof -
    have "m_isEnabled ((scheduleReconnect ^^ n) (onclose s)) \<and> True \<and>
        backoffMultiplier ((scheduleReconnect ^^ n) (onclose s)) = min (2 ^ Suc n) 60 \<and>
        reconnectTimeout ((scheduleReconnect ^^ n) (onclose s))
          = Some (min (baseBackoffMs * 2 ^ n) maxBackoffMs)"
      by (rule backoff_rounds [where I = "\<lambda>t. True"])
         (simp_all add: scheduleReconnect_enabled en one)
    then show ?thesis by simp
  qed
  have rounds: "reconnectTimeout ((reconnectFails endpoint ^^ n) (onclose s))
        = Some (min (baseBackoffMs * 2 ^ n) maxBackoffMs) \<and>
      backoffMultiplier ((reconnectFails endpoint ^^ n) (onclose s)) \<le> 60"
    if en: "m_isEnabled s" and one: "backoffMultiplier s = 1" and cid: "m_clientId s \<noteq> None"
  proof -
    have "m_isEnabled ((reconnectFails endpoint ^^ n) (onclose s)) \<and>
        m_clientId ((reconnectFails endpoint ^^ n) (onclose s)) \<noteq> None \<and>
        backoffMultiplier ((reconnectFails endpoint ^^ n) (onclose s)) = min (2 ^ Suc n) 60 \<and>
        reconnectTimeout ((reconnectFails endpoint ^^ n) (onclose s))
          = Some (min (baseBackoffMs * 2 ^ n) maxBackoffMs)"
    proof (rule backoff_rounds [where I = "\<lambda>t. m_clientId t \<noteq> None"])
      show "reconnectTimeout (reconnectFails endpoint t)
            = Some (min (baseBackoffMs * backoffMultiplier t) maxBackoffMs) \<and>
          backoffMultiplier (reconnectFails endpoint t) = min (backoffMultiplier t * 2) 60 \<and>
          m_isEnabled (reconnectFails endpoint t) \<and> m_clientId (reconnectFails endpoint t) \<noteq> None"
        if "m_isEnabled t" and "m_clientId t \<noteq> None" for t
        using that by (rule reconnectFails_step)
      show "m_isEnabled s" by (rule en)
      show "m_clientId (onclose s) \<noteq> None"
        using cid en by (simp add: onclose_enabled)
      show "backoffMultiplier s = 1" by (rule one)
    qed
    then show ?thesis by simp
  qed
  show ?thesis
    using onclose_any [of s] bk enabled first sched rounds onclose_disabled [of s]
    by blast
qed

text \<open>The enabled manager: the first delay is 1000 ms, the delay after three more failed
  rounds is 8000 ms, the one after seven is the cap of 60000 ms. The manager that
  reconnected while disabled had no reconnect timer and has none after the close.\<close>

theorem onclose_schedules_reconnect_witness:
  "connectionState connectedManager = Connected \<and> backoffMultiplier connectedManager = 1 \<and>
   m_isEnabled connectedManager \<and> m_clientId connectedManager \<noteq> None \<and>
   connectionState (onclose connectedManager) = Disconnected \<and>
   pollInterval (onclose connectedManager) \<and>
   reconnectTimeout (onclose connectedManager) = Some 1000 \<and>
   reconnectTimeout ((scheduleReconnect ^^ 2) (onclose connectedManager)) = Some 4000 \<and>
   reconnectTimeout ((reconnectFails True ^^ 3) (onclose connectedManager)) = Some 8000 \<and>
   reconnectTimeout ((reconnectFails False ^^ 7) (onclose connectedManager)) = Some 60000 \<and>
   m_isEnabled reconnectedWhileDisabled = False \<and>
   reconnectTimeout reconnectedWhileDisabled = None \<and>
   connectionState (onclose reconnectedWhileDisabled) = Disconnected \<and>
   pollInterval (onclose reconnectedWhileDisabled) \<and>
   reconnectTimeout (onclose reconnectedWhileDisabled) = None"
proof -
  have h: "connectionState connectedManager = Connected" "backoffMultiplier connectedManager = 1"
      "m_isEnabled connectedManager" "m_clientId connectedManager \<noteq> None"
    by (simp_all add: connectedManager_def)
  have d: "m_isEnabled reconnectedWhileDisabled = False"
      "reconnectTimeout reconnectedWhileDisabled = None"
    by (simp_all add: reconnectedWhileDisabled_def connectedManager_def setEnabledFalse_def
        stopSync_def closeWebSocket_def stopPolling_def clearReconnectTimeout_def emit_def
        onclose_def startPolling_def scheduleReconnect_def pollTick_def connectWebSocket_def
        onopen_def)
  show ?thesis
    using onclose_schedules_reconnect [where s = connectedManager and endpoint = True and n = 3]
      onclose_schedules_reconnect [where s = connectedManager and endpoint = False and n = 7]
      onclose_schedules_reconnect [where s = connectedManager and endpoint = True and n = 2]
      onclose_schedules_reconnect [where s = reconnectedWhileDisabled and endpoint = True and n = 0]
      h d
    by simp
qed

text \<open>
  The claim as written has no condition on the manager being enabled. A manager that was
  disabled while connected closes its socket; the close event starts polling again; a
  polling tick reconnects and the socket opens. The manager is then connected with the
  multiplier at 1, and disabled. When that socket closes, polling starts and no reconnect
  is scheduled.
\<close>

theorem onclose_disabled_no_reconnect:
  "connectionState reconnectedWhileDisabled = Connected \<and>
   backoffMultiplier reconnectedWhileDisabled = 1 \<and>
   m_isEnabled reconnectedWhileDisabled = False \<and>
   connectionState (onclose reconnectedWhileDisabled) = Disconnected \<and>
   pollInterval (onclose reconnectedWhileDisabled) \<and>
   reconnectTimeout (onclose reconnectedWhileDisabled) = None \<and>
   reconnectTimeout (onclose reconnectedWhileDisabled) \<noteq> Some baseBackoffMs"
  by (simp add: reconnectedWhileDisabled_def connectedManager_def setEnabledFalse_def
      stopSync_def closeWebSocket_def stopPolling_def clearReconnectTimeout_def emit_def
      onclose_def startPolling_def scheduleReconnect_def pollTick_def connectWebSocket_def
      onopen_def)

end
